theory Spec2Isabelle
  imports Main "HOL-Library.Word"
begin

unbundle bit_operations_syntax

section \<open>U2F AUTHENTICATE handlers of the emulator (src/u2f-raw/authenticate.c)\<close>

text \<open>
  The C handlers build a response message from a request message. They are embedded as
  pure functions from the request to the response. The calls that only log
  (\<^verbatim>\<open>fprintf\<close>, \<^verbatim>\<open>warnx\<close>, \<^verbatim>\<open>dump_bytes\<close>, and the two message dumps at
  the end of the check and enforce handlers) and the calls to \<^verbatim>\<open>free\<close> do not change the
  returned message and are left out. A read outside a buffer is undefined behaviour in C;
  it is the error value \<open>OutOfBounds\<close> here.
\<close>

type_synonym u8 = "8 word"
type_synonym u32 = "32 word"
type_synonym size_t = "64 word"

datatype error = OutOfBounds

subsection \<open>Constants\<close>

text \<open>The version constants of src/u2f-hid/message.h.\<close>

definition U2FHID_INIT_BCNT :: nat where "U2FHID_INIT_BCNT = 8"
definition PROTOCOL_VERSION :: u8 where "PROTOCOL_VERSION = 2"
definition MAJ_DEV_VERSION :: u8 where "MAJ_DEV_VERSION = 0"
definition MIN_DEV_VERSION :: u8 where "MIN_DEV_VERSION = 1"
definition BUILD_DEV_VERSION :: u8 where "BUILD_DEV_VERSION = 0"
definition CAP_FLAGS :: u8 where "CAP_FLAGS = 0"

text \<open>
  Modelled from the spec: the macros of raw_message.h, authenticate.h and commands.h,
  which are not among the sources. The sizes are those of the request layout (section
  3 and 4.4), the status words those of the table of section 4.4, the P1 sub-modes those
  of section 4.4.2, and \<open>CMD_MSG\<close> is the command code of section 4.3.
\<close>

definition U2F_APDU_HEADER_SIZE :: nat where "U2F_APDU_HEADER_SIZE = 7"
definition U2F_APP_PARAM_SIZE :: nat where "U2F_APP_PARAM_SIZE = 32"
definition U2F_CHA_PARAM_SIZE :: nat where "U2F_CHA_PARAM_SIZE = 32"

definition SW_NO_ERROR :: u32 where "SW_NO_ERROR = 0x9000"
definition SW_CONDITIONS_NOT_SATISFIED :: u32 where "SW_CONDITIONS_NOT_SATISFIED = 0x6985"
definition SW_WRONG_DATA :: u32 where "SW_WRONG_DATA = 0x6A80"

definition U2F_AUTH_ENFORCE :: u8 where "U2F_AUTH_ENFORCE = 0x03"
definition U2F_AUTH_CHECK :: u8 where "U2F_AUTH_CHECK = 0x07"
definition U2F_AUTH_NO_ENFORCE :: u8 where "U2F_AUTH_NO_ENFORCE = 0x08"

definition CMD_MSG :: u8 where "CMD_MSG = 0x83"

subsection \<open>Messages\<close>

text \<open>
  Modelled from the spec: \<^verbatim>\<open>struct message\<close> is declared in message.h, but its packets
  (packet.h) and the functions on it (message.c) are not among the sources. Following
  section 3 a message is the tuple of its channel id, its command and its payload bytes;
  \<open>msg_cid\<close> and \<open>msg_cmd\<close> are the fields \<^verbatim>\<open>init_packet->cid\<close> and
  \<^verbatim>\<open>init_packet->cmd\<close>.
\<close>

record message =
  msg_cid :: u32
  msg_cmd :: u8
  msg_data :: "u8 list"

text \<open>
  Modelled from the spec: \<^verbatim>\<open>message_new_blank\<close>, \<^verbatim>\<open>message_add_data\<close> and
  \<^verbatim>\<open>message_read\<close> (message.c is absent), after their descriptions in message.h: a blank
  message on a channel with a command, appending bytes to the payload, and copying at most
  \<open>sz\<close> payload bytes from \<open>offset\<close> into a buffer. The buffer is given with its
  previous content \<open>buf\<close>: the bytes that the message does not provide stay as they were.
\<close>

definition message_new_blank :: "u32 \<Rightarrow> u8 \<Rightarrow> message" where
  "message_new_blank cid cmd = \<lparr>msg_cid = cid, msg_cmd = cmd, msg_data = []\<rparr>"

definition message_add_data :: "message \<Rightarrow> u8 list \<Rightarrow> message" where
  "message_add_data m d = m\<lparr>msg_data := msg_data m @ d\<rparr>"

definition message_read :: "message \<Rightarrow> u8 list \<Rightarrow> nat \<Rightarrow> nat \<Rightarrow> u8 list" where
  "message_read m buf offset sz =
     (let got = take sz (drop offset (msg_data m)) in got @ drop (length got) buf)"

text \<open>
  Modelled from the spec: \<^verbatim>\<open>struct frame_header\<close> (frame.h is absent) overlays the APDU
  header \<open>CLA INS P1 P2 LC:3\<close> of section 4.4 on the data of the init packet, so
  \<open>p1\<close> is its third byte. A payload shorter than that leaves the zero padding of the
  packet (section 4.1) there.
\<close>

definition frame_header_p1 :: "message \<Rightarrow> u8" where
  "frame_header_p1 m = (if 2 < length (msg_data m) then msg_data m ! 2 else 0)"

text \<open>
  Modelled from the spec: \<^verbatim>\<open>struct authentification_params\<close> (authenticate.h is absent),
  the fixed part of the request after the APDU header (section 3):
  \<open>challenge_param:32\<close>, \<open>application_param:32\<close>, \<open>key_handle_size:1\<close>.
  \<open>params_of_bytes\<close> reads the fields of the struct from its 65 bytes.
\<close>

record authentification_params =
  challenge_param :: "u8 list"
  application_param :: "u8 list"
  key_handle_size :: u8

definition sizeof_authentification_params :: nat where
  "sizeof_authentification_params = U2F_CHA_PARAM_SIZE + U2F_APP_PARAM_SIZE + 1"

definition params_of_bytes :: "u8 list \<Rightarrow> authentification_params" where
  "params_of_bytes buf =
     \<lparr>challenge_param = take U2F_CHA_PARAM_SIZE buf,
      application_param = take U2F_APP_PARAM_SIZE (drop U2F_CHA_PARAM_SIZE buf),
      key_handle_size = buf ! (U2F_CHA_PARAM_SIZE + U2F_APP_PARAM_SIZE)\<rparr>"

text \<open>
  The content of memory that the handlers read into before they write it: the local
  \<^verbatim>\<open>params\<close> on the stack and the buffer that \<^verbatim>\<open>xmalloc\<close> returns for the ciphered
  key handle. C leaves both uninitialised, so they are inputs of the model.
\<close>

record uninit =
  params_mem :: "nat \<Rightarrow> u8"
  cipher_mem :: "nat \<Rightarrow> u8"

subsection \<open>Cryptographic primitives\<close>

text \<open>
  crypto.h is absent and the primitives are outside the handlers: they are parameters.
  Each takes a buffer with its size and returns a fresh buffer with its size, which are a
  byte list here. \<open>'k\<close> is \<^verbatim>\<open>EC_KEY\<close>.
\<close>

record 'k crypto =
  crypto_aes_decrypt :: "u8 list \<Rightarrow> u8 list"
  crypto_hash :: "u8 list \<Rightarrow> u8 list"
  crypto_ec_sign_with_key :: "'k \<Rightarrow> u8 list \<Rightarrow> u8 list"
  crypto_ec_bytes_to_key :: "u8 list \<Rightarrow> 'k"

subsection \<open>Building the response\<close>

definition authenticate_response_user_pre :: "message \<Rightarrow> u8 \<Rightarrow> message" where
  "authenticate_response_user_pre response presence = message_add_data response [presence]"

definition counter_buffer :: "u32 \<Rightarrow> u8 list" where
  "counter_buffer counter =
     [ucast (counter AND 0xFF),
      ucast (drop_bit 8 counter AND 0xFF),
      ucast (drop_bit 16 counter AND 0xFF),
      ucast (drop_bit 24 counter AND 0xFF)]"

definition authenticate_response_counter :: "message \<Rightarrow> u32 \<Rightarrow> message" where
  "authenticate_response_counter response counter =
     message_add_data response (counter_buffer counter)"

text \<open>The buffer that \<^verbatim>\<open>authenticate_response_signature\<close> fills and hashes.\<close>

definition buffer_to_sign :: "authentification_params \<Rightarrow> u8 \<Rightarrow> u32 \<Rightarrow> u8 list" where
  "buffer_to_sign params presence counter =
     application_param params @ [presence] @ counter_buffer counter @ challenge_param params"

definition authenticate_response_signature ::
  "'k crypto \<Rightarrow> message \<Rightarrow> 'k \<Rightarrow> authentification_params \<Rightarrow> u8 \<Rightarrow> u32 \<Rightarrow> message" where
  "authenticate_response_signature cr response key params presence counter =
     (let digest = crypto_hash cr (buffer_to_sign params presence counter);
          signature_buffer = crypto_ec_sign_with_key cr key digest
      in message_add_data response signature_buffer)"

definition authenticate_response_sw :: "message \<Rightarrow> u32 \<Rightarrow> message" where
  "authenticate_response_sw response status =
     message_add_data response [ucast (drop_bit 8 status), ucast (status AND 0xFF)]"

subsection \<open>Reading the request\<close>

definition read_params :: "uninit \<Rightarrow> message \<Rightarrow> authentification_params" where
  "read_params u request =
     params_of_bytes
       (message_read request (map (params_mem u) [0..<sizeof_authentification_params])
          U2F_APDU_HEADER_SIZE sizeof_authentification_params)"

definition authenticate_get_key_handle_cipher ::
  "uninit \<Rightarrow> message \<Rightarrow> authentification_params \<Rightarrow> u8 list" where
  "authenticate_get_key_handle_cipher u request params =
     (let offset = U2F_APDU_HEADER_SIZE + U2F_APP_PARAM_SIZE + U2F_CHA_PARAM_SIZE + 1
      in message_read request (map (cipher_mem u) [0..<unat (key_handle_size params)])
           offset (unat (key_handle_size params)))"

definition authenticate_decrypt_key_handle_cipher ::
  "'k crypto \<Rightarrow> u8 list \<Rightarrow> nat \<Rightarrow> u8 list" where
  "authenticate_decrypt_key_handle_cipher cr key_handle_cipher key_handle_cipher_size =
     crypto_aes_decrypt cr (take key_handle_cipher_size key_handle_cipher)"

text \<open>
  \<^verbatim>\<open>privkey_size = key_handle_size - U2F_APP_PARAM_SIZE\<close> on \<^verbatim>\<open>size_t\<close>: the
  subtraction wraps around.
\<close>

definition privkey_size_of :: "nat \<Rightarrow> size_t" where
  "privkey_size_of kh_size = of_nat kh_size - of_nat U2F_APP_PARAM_SIZE"

text \<open>
  Reading \<open>n\<close> bytes of a buffer from offset \<open>off\<close>, as \<^verbatim>\<open>memcmp\<close> and
  \<^verbatim>\<open>crypto_ec_bytes_to_key\<close> do with a pointer and a size.
\<close>

definition buffer_read :: "u8 list \<Rightarrow> nat \<Rightarrow> nat \<Rightarrow> error + u8 list" where
  "buffer_read buf off n =
     (if off + n \<le> length buf then Inr (take n (drop off buf)) else Inl OutOfBounds)"

definition authenticate_get_pubkey_from_key_handle :: "'k crypto \<Rightarrow> u8 list \<Rightarrow> error + 'k" where
  "authenticate_get_pubkey_from_key_handle cr key_handle =
     (let privkey_size = privkey_size_of (length key_handle)
      in case buffer_read key_handle 0 (unat privkey_size) of
           Inl e \<Rightarrow> Inl e
         | Inr privkey \<Rightarrow> Inr (crypto_ec_bytes_to_key cr privkey))"

subsection \<open>The handlers\<close>

definition raw_authenticate_check :: "'k crypto \<Rightarrow> uninit \<Rightarrow> message \<Rightarrow> error + message" where
  "raw_authenticate_check cr u request =
     (let params = read_params u request;
          response = message_new_blank (msg_cid request) CMD_MSG;
          key_handle_cipher_size = key_handle_size params;
          key_handle_cipher = authenticate_get_key_handle_cipher u request params;
          key_handle = authenticate_decrypt_key_handle_cipher cr key_handle_cipher
                         (unat key_handle_cipher_size);
          privkey_size = privkey_size_of (length key_handle)
      in case buffer_read key_handle (unat privkey_size) U2F_APP_PARAM_SIZE of
           Inl e \<Rightarrow> Inl e
         | Inr bound \<Rightarrow>
             if bound \<noteq> application_param params
             then Inr (authenticate_response_sw response SW_WRONG_DATA)
             else Inr (authenticate_response_sw response SW_CONDITIONS_NOT_SATISFIED))"

definition raw_authenticate_enforce :: "'k crypto \<Rightarrow> uninit \<Rightarrow> message \<Rightarrow> error + message" where
  "raw_authenticate_enforce cr u request =
     (let params = read_params u request;
          response = message_new_blank (msg_cid request) CMD_MSG;
          key_handle_cipher = authenticate_get_key_handle_cipher u request params;
          key_handle = authenticate_decrypt_key_handle_cipher cr key_handle_cipher
                         (unat (key_handle_size params))
      in case authenticate_get_pubkey_from_key_handle cr key_handle of
           Inl e \<Rightarrow> Inl e
         | Inr key \<Rightarrow>
             (let response = authenticate_response_user_pre response 1;
                  response = authenticate_response_counter response 1;
                  response = authenticate_response_signature cr response key params 1 1;
                  response = authenticate_response_sw response SW_NO_ERROR
              in Inr response))"

text \<open>\<open>None\<close> is the \<^verbatim>\<open>NULL\<close> that the handler returns instead of a message.\<close>

definition raw_authenticate_no_enforce :: "message \<Rightarrow> error + message option" where
  "raw_authenticate_no_enforce request = Inr None"

definition raw_authenticate_handler ::
  "'k crypto \<Rightarrow> uninit \<Rightarrow> message \<Rightarrow> error + message option" where
  "raw_authenticate_handler cr u request =
     (let p1 = frame_header_p1 request
      in if p1 = U2F_AUTH_CHECK then map_sum id Some (raw_authenticate_check cr u request)
         else if p1 = U2F_AUTH_ENFORCE then map_sum id Some (raw_authenticate_enforce cr u request)
         else if p1 = U2F_AUTH_NO_ENFORCE then raw_authenticate_no_enforce request
         else Inr None)"

subsection \<open>The INIT response\<close>

text \<open>
  Modelled from the spec: the handler of the U2FHID INIT command (commands.c is absent;
  only the version constants of message.h are among the sources). Section 4.3 gives the
  response payload as the echoed nonce, the channel id as four opaque bytes, and the
  five version and capability bytes, in this order.
\<close>

definition u2fhid_init_response_data :: "u8 list \<Rightarrow> u8 list \<Rightarrow> u8 list" where
  "u2fhid_init_response_data nonce new_cid =
     nonce @ new_cid
       @ [PROTOCOL_VERSION, MAJ_DEV_VERSION, MIN_DEV_VERSION, BUILD_DEV_VERSION, CAP_FLAGS]"

subsection \<open>Notions of the specification\<close>

text \<open>
  The plain key handle of a request, as both handlers compute it before they use it.
\<close>

definition decrypted_key_handle :: "'k crypto \<Rightarrow> uninit \<Rightarrow> message \<Rightarrow> u8 list" where
  "decrypted_key_handle cr u request =
     (let params = read_params u request
      in authenticate_decrypt_key_handle_cipher cr
           (authenticate_get_key_handle_cipher u request params)
           (unat (key_handle_size params)))"

text \<open>
  Section 3 of the specification: a plain key handle is the private key bytes followed by
  the 32 bytes of the application parameter it is bound to.
\<close>

definition private_key_bytes :: "u8 list \<Rightarrow> u8 list" where
  "private_key_bytes kh = take (length kh - 32) kh"

definition bound_application_param :: "u8 list \<Rightarrow> u8 list" where
  "bound_application_param kh = drop (length kh - 32) kh"

text \<open>
  The number that a byte string denotes, read most significant byte first (big-endian)
  and least significant byte first (little-endian).
\<close>

definition be32_val :: "u8 list \<Rightarrow> nat" where
  "be32_val bs = foldl (\<lambda>acc b. 256 * acc + unat b) 0 bs"

definition le32_val :: "u8 list \<Rightarrow> nat" where
  "le32_val bs = foldr (\<lambda>b acc. unat b + 256 * acc) bs 0"

text \<open>
  The counter field of an enforce response (after the user presence byte) and of the
  signed buffer (after the application parameter and the user presence byte).
\<close>

definition response_counter_field :: "message \<Rightarrow> u8 list" where
  "response_counter_field r = take 4 (drop 1 (msg_data r))"

definition signed_counter_field :: "u8 list \<Rightarrow> u8 list" where
  "signed_counter_field buf = take 4 (drop (U2F_APP_PARAM_SIZE + 1) buf)"

subsection \<open>Concrete inputs\<close>

text \<open>
  Simple stand-ins for the primitives, to run the handlers on concrete requests: the
  key handle is not ciphered, the key is its bytes, a digest is the length and the last
  byte of the buffer, and a signature is two bytes of the key followed by the digest.
\<close>

definition toy_crypto :: "u8 list crypto" where
  "toy_crypto =
     \<lparr>crypto_aes_decrypt = (\<lambda>c. c),
      crypto_hash = (\<lambda>b. [of_nat (length b), last b]),
      crypto_ec_sign_with_key = (\<lambda>k d. take 2 k @ d),
      crypto_ec_bytes_to_key = (\<lambda>b. b)\<rparr>"

definition zero_mem :: uninit where
  "zero_mem = \<lparr>params_mem = (\<lambda>_. 0), cipher_mem = (\<lambda>_. 0)\<rparr>"

text \<open>
  An AUTHENTICATE request on channel \<open>01020304\<close> with the given P1, a challenge
  parameter of 32 bytes \<open>cha\<close>, the application parameter \<open>BB\<close> (32 times), and a key
  handle of 64 bytes: a private key \<open>11\<close> (32 times) bound to the application
  parameter \<open>bound\<close> (32 times).
\<close>

definition auth_request :: "u8 \<Rightarrow> u8 \<Rightarrow> u8 \<Rightarrow> message" where
  "auth_request p1 cha bound =
     \<lparr>msg_cid = 0x01020304, msg_cmd = CMD_MSG,
      msg_data = [0x00, 0x02, p1, 0x00, 0x00, 0x00, 0x81] @ replicate 32 cha
                 @ replicate 32 0xBB @ [0x40] @ replicate 32 0x11 @ replicate 32 bound\<rparr>"

text \<open>The same request with a key handle of 16 bytes, shorter than an application parameter.\<close>

definition short_request :: "u8 \<Rightarrow> message" where
  "short_request p1 =
     \<lparr>msg_cid = 0x01020304, msg_cmd = CMD_MSG,
      msg_data = [0x00, 0x02, p1, 0x00, 0x00, 0x00, 0x51] @ replicate 32 0xAA
                 @ replicate 32 0xBB @ [0x10] @ replicate 16 0x11\<rparr>"

text \<open>
  A second set of stand-ins whose key handles are ciphered: decryption flips the bits
  \<open>5A\<close> of every byte. The request carries the ciphered key handle: the private key
  \<open>11\<close> (32 times) is \<open>4B\<close> on the wire, and the last 32 bytes \<open>bound\<close> are the
  ciphered application parameter (\<open>E1\<close> for \<open>BB\<close>, \<open>96\<close> for \<open>CC\<close>).
\<close>

definition masked_crypto :: "u8 list crypto" where
  "masked_crypto =
     \<lparr>crypto_aes_decrypt = map (\<lambda>b. b XOR 0x5A),
      crypto_hash = (\<lambda>b. [of_nat (length b), last b]),
      crypto_ec_sign_with_key = (\<lambda>k d. take 2 k @ d),
      crypto_ec_bytes_to_key = (\<lambda>b. b)\<rparr>"

definition masked_request :: "u8 \<Rightarrow> u8 \<Rightarrow> message" where
  "masked_request p1 bound =
     \<lparr>msg_cid = 0x01020304, msg_cmd = CMD_MSG,
      msg_data = [0x00, 0x02, p1, 0x00, 0x00, 0x00, 0x81] @ replicate 32 0xAA
                 @ replicate 32 0xBB @ [0x40] @ replicate 32 0x4B @ replicate 32 bound @ []\<rparr>"

section \<open>Properties\<close>

subsection \<open>Auxiliary facts\<close>

lemma unat_privkey_size_of:
  assumes "n < 2 ^ 64"
  shows "unat (privkey_size_of n) = (if 32 \<le> n then n - 32 else n + 2 ^ 64 - 32)"
  using assms
  by (simp add: privkey_size_of_def U2F_APP_PARAM_SIZE_def unat_sub_if' unat_of_nat)

lemma length_message_read:
  "sz \<le> length buf \<Longrightarrow> length (message_read m buf offset sz) = length buf"
  by (simp add: message_read_def Let_def)

lemma length_params_buf:
  "length (message_read request (map (params_mem u) [0..<sizeof_authentification_params])
          U2F_APDU_HEADER_SIZE sizeof_authentification_params) = 65"
  by (simp add: length_message_read)
     (simp add: sizeof_authentification_params_def U2F_CHA_PARAM_SIZE_def U2F_APP_PARAM_SIZE_def)

lemma length_application_param: "length (application_param (read_params u request)) = 32"
  by (simp add: read_params_def params_of_bytes_def length_params_buf
        U2F_CHA_PARAM_SIZE_def U2F_APP_PARAM_SIZE_def)

lemma length_challenge_param: "length (challenge_param (read_params u request)) = 32"
  by (simp add: read_params_def params_of_bytes_def length_params_buf
        U2F_CHA_PARAM_SIZE_def U2F_APP_PARAM_SIZE_def)

lemma buffer_read_app:
  assumes "length kh < 2 ^ 64"
  shows "buffer_read kh (unat (privkey_size_of (length kh))) U2F_APP_PARAM_SIZE =
    (if 32 \<le> length kh then Inr (bound_application_param kh) else Inl OutOfBounds)"
  using assms
  by (simp add: buffer_read_def unat_privkey_size_of U2F_APP_PARAM_SIZE_def
        bound_application_param_def)

lemma buffer_read_priv:
  assumes "length kh < 2 ^ 64"
  shows "buffer_read kh 0 (unat (privkey_size_of (length kh))) =
    (if 32 \<le> length kh then Inr (private_key_bytes kh) else Inl OutOfBounds)"
  using assms by (simp add: buffer_read_def unat_privkey_size_of private_key_bytes_def)

lemma get_pubkey:
  assumes "length kh < 2 ^ 64"
  shows "authenticate_get_pubkey_from_key_handle cr kh =
    (if 32 \<le> length kh then Inr (crypto_ec_bytes_to_key cr (private_key_bytes kh))
     else Inl OutOfBounds)"
  using assms by (simp add: authenticate_get_pubkey_from_key_handle_def buffer_read_priv)

lemma sw_bytes:
  "authenticate_response_sw r SW_NO_ERROR = r\<lparr>msg_data := msg_data r @ [0x90, 0x00]\<rparr>"
  "authenticate_response_sw r SW_WRONG_DATA = r\<lparr>msg_data := msg_data r @ [0x6A, 0x80]\<rparr>"
  "authenticate_response_sw r SW_CONDITIONS_NOT_SATISFIED =
     r\<lparr>msg_data := msg_data r @ [0x69, 0x85]\<rparr>"
  by (simp_all add: authenticate_response_sw_def message_add_data_def SW_NO_ERROR_def
        SW_WRONG_DATA_def SW_CONDITIONS_NOT_SATISFIED_def)

lemma counter_buffer_1: "counter_buffer 1 = [1, 0, 0, 0]"
  by (simp add: counter_buffer_def)

text \<open>What the two handlers return, for a plain key handle whose size fits \<^verbatim>\<open>size_t\<close>.\<close>

lemma check_general:
  assumes "length (decrypted_key_handle cr u request) < 2 ^ 64"
  shows "raw_authenticate_check cr u request =
     (if 32 \<le> length (decrypted_key_handle cr u request)
      then Inr \<lparr>msg_cid = msg_cid request, msg_cmd = CMD_MSG,
                msg_data = (if bound_application_param (decrypted_key_handle cr u request)
                                 = application_param (read_params u request)
                            then [0x69, 0x85] else [0x6A, 0x80])\<rparr>
      else Inl OutOfBounds)"
  using assms
  by (simp add: raw_authenticate_check_def decrypted_key_handle_def Let_def buffer_read_app
        sw_bytes message_new_blank_def)

lemma enforce_general:
  assumes "length (decrypted_key_handle cr u request) < 2 ^ 64"
  shows "raw_authenticate_enforce cr u request =
     (if 32 \<le> length (decrypted_key_handle cr u request)
      then Inr \<lparr>msg_cid = msg_cid request, msg_cmd = CMD_MSG,
                msg_data = [1] @ counter_buffer 1
                  @ crypto_ec_sign_with_key cr
                      (crypto_ec_bytes_to_key cr
                         (private_key_bytes (decrypted_key_handle cr u request)))
                      (crypto_hash cr (buffer_to_sign (read_params u request) 1 1))
                  @ [0x90, 0x00]\<rparr>
      else Inl OutOfBounds)"
  using assms
  by (simp add: raw_authenticate_enforce_def decrypted_key_handle_def Let_def get_pubkey
        sw_bytes message_new_blank_def authenticate_response_user_pre_def
        authenticate_response_counter_def authenticate_response_signature_def
        message_add_data_def)

text \<open>What a returned message looks like, whatever the size of the plain key handle.\<close>

lemma check_Inr:
  assumes "raw_authenticate_check cr u request = Inr r"
  shows "msg_cid r = msg_cid request \<and> msg_cmd r = CMD_MSG
         \<and> (msg_data r = [0x69, 0x85] \<or> msg_data r = [0x6A, 0x80])"
  using assms
  by (auto simp: raw_authenticate_check_def Let_def sw_bytes message_new_blank_def
        split: sum.splits if_splits)

lemma enforce_Inr:
  assumes "raw_authenticate_enforce cr u request = Inr r"
  shows "\<exists>signature. r = \<lparr>msg_cid = msg_cid request, msg_cmd = CMD_MSG,
                    msg_data = [1] @ counter_buffer 1 @ signature @ [0x90, 0x00]\<rparr>"
  using assms
  by (auto simp: raw_authenticate_enforce_def Let_def sw_bytes message_new_blank_def
        authenticate_response_user_pre_def authenticate_response_counter_def
        authenticate_response_signature_def message_add_data_def
        split: sum.splits)

text \<open>The bytes of the counter, and the number they denote.\<close>

lemma ucast_and_ff: "(ucast ((w::u32) AND 0xFF) :: u8) = ucast w"
proof -
  have "(0xFF :: u32) = mask 8" by (simp add: mask_eq_exp_minus_1)
  then show ?thesis
    by (simp add: bit_eq_iff bit_simps)
qed

lemma unat_byte: "unat (ucast (drop_bit n (w::u32)) :: u8) = (unat w div 2 ^ n) mod 256"
  by (simp add: unsigned_ucast_eq unat_drop_bit_eq take_bit_eq_mod) (simp add: drop_bit_eq_div)

lemma four_bytes_value:
  fixes x :: nat
  assumes "x < 2 ^ 32"
  shows "x mod 256 + 256 * ((x div 2 ^ 8) mod 256
        + 256 * ((x div 2 ^ 16) mod 256 + 256 * ((x div 2 ^ 24) mod 256))) = x"
proof -
  have 1: "x div 2 ^ 16 = (x div 2 ^ 8) div 256" by (simp add: div_mult2_eq[symmetric])
  have 2: "x div 2 ^ 24 = (x div 2 ^ 16) div 256" by (simp add: div_mult2_eq[symmetric])
  have 3: "(x div 2 ^ 24) mod 256 = x div 2 ^ 24"
    using assms by (simp add: less_mult_imp_div_less)
  show ?thesis by (simp only: 3) (simp only: 2 1, simp)
qed

lemma le32_val_counter_buffer: "le32_val (counter_buffer c) = unat c"
proof -
  have b: "unat c < 2 ^ 32" using unsigned_less [of c] by simp
  have 0: "unat (ucast c :: u8) = unat c mod 256" using unat_byte [of 0 c] by simp
  have "le32_val (counter_buffer c) =
      unat c mod 256 + 256 * ((unat c div 2 ^ 8) mod 256
        + 256 * ((unat c div 2 ^ 16) mod 256 + 256 * ((unat c div 2 ^ 24) mod 256)))"
    by (simp add: le32_val_def counter_buffer_def ucast_and_ff unat_byte 0)
  also have "\<dots> = unat c" using b by (rule four_bytes_value)
  finally show ?thesis .
qed

lemma signed_counter:
  "signed_counter_field (buffer_to_sign (read_params u request) presence counter)
     = counter_buffer counter"
  by (simp add: signed_counter_field_def buffer_to_sign_def length_application_param
        U2F_APP_PARAM_SIZE_def counter_buffer_def)

text \<open>
  A request whose payload has the layout of section 4.4.2: the APDU header, the challenge
  parameter, the application parameter, the size of the key handle and the key handle.
  The handlers read these fields from it.
\<close>

lemma read_params_layout:
  assumes "msg_data request = [cla, ins, p1, p2, lc1, lc2, lc3] @ cha @ app @ [khs] @ khc @ rest"
    and "length cha = 32" and "length app = 32"
  shows "read_params u request
           = \<lparr>challenge_param = cha, application_param = app, key_handle_size = khs\<rparr>"
proof -
  have d: "drop U2F_APDU_HEADER_SIZE (msg_data request) = cha @ app @ [khs] @ khc @ rest"
    by (simp add: assms(1) U2F_APDU_HEADER_SIZE_def)
  have s: "sizeof_authentification_params = 65"
    by (simp add: sizeof_authentification_params_def U2F_CHA_PARAM_SIZE_def
          U2F_APP_PARAM_SIZE_def)
  have "message_read request (map (params_mem u) [0..<sizeof_authentification_params])
          U2F_APDU_HEADER_SIZE sizeof_authentification_params = cha @ app @ [khs]"
    by (simp add: message_read_def Let_def d s assms(2,3))
  then show ?thesis
    by (simp add: read_params_def params_of_bytes_def U2F_CHA_PARAM_SIZE_def
          U2F_APP_PARAM_SIZE_def assms(2,3) nth_append)
qed

lemma key_handle_cipher_layout:
  assumes "msg_data request = [cla, ins, p1, p2, lc1, lc2, lc3] @ cha @ app @ [khs] @ khc @ rest"
    and "length cha = 32" and "length app = 32" and "length khc = unat khs"
  shows "authenticate_get_key_handle_cipher u request
           \<lparr>challenge_param = cha, application_param = app, key_handle_size = khs\<rparr> = khc"
proof -
  have d: "drop 72 (msg_data request) = khc @ rest"
    by (simp add: assms(1,2,3))
  have "message_read request (map (cipher_mem u) [0..<length khc]) 72 (length khc) = khc"
    unfolding message_read_def Let_def d by simp
  then show ?thesis
    by (simp add: authenticate_get_key_handle_cipher_def Let_def
          U2F_APDU_HEADER_SIZE_def U2F_CHA_PARAM_SIZE_def U2F_APP_PARAM_SIZE_def
          assms(4) [symmetric])
qed

lemma decrypted_key_handle_layout:
  assumes "msg_data request = [cla, ins, p1, p2, lc1, lc2, lc3] @ cha @ app @ [khs] @ khc @ rest"
    and "length cha = 32" and "length app = 32" and "length khc = unat khs"
  shows "decrypted_key_handle cr u request = crypto_aes_decrypt cr khc"
  by (simp add: decrypted_key_handle_def Let_def read_params_layout [OF assms(1,2,3)]
        key_handle_cipher_layout [OF assms] authenticate_decrypt_key_handle_cipher_def
        assms(4) [symmetric])

lemma frame_header_p1_layout:
  assumes "msg_data request = [cla, ins, p1, p2, lc1, lc2, lc3] @ cha @ app @ [khs] @ khc @ rest"
  shows "frame_header_p1 request = p1"
  by (simp add: frame_header_p1_def assms)

subsection \<open>The enforce handler\<close>

text \<open>
  C1: an enforce request (P1 = 0x03) whose key handle is bound to another application
  parameter than the one of the request should be answered with \<open>SW_WRONG_DATA\<close> and no
  signature. \<^verbatim>\<open>raw_authenticate_enforce\<close> never compares the two, unlike
  \<^verbatim>\<open>raw_authenticate_check\<close>: on the request below, whose key handle is bound to
  \<open>CC..\<close> while the request is for \<open>BB..\<close>, the handler returns user presence, counter,
  a signature and \<open>SW_NO_ERROR\<close> (90 00).
\<close>

theorem enforce_mismatch_is_signed:
  "bound_application_param (decrypted_key_handle toy_crypto zero_mem (auth_request 0x03 0xAA 0xCC))
     \<noteq> application_param (read_params zero_mem (auth_request 0x03 0xAA 0xCC))
   \<and> raw_authenticate_handler toy_crypto zero_mem (auth_request 0x03 0xAA 0xCC)
     = Inr (Some \<lparr>msg_cid = 0x01020304, msg_cmd = 0x83,
                  msg_data = [0x01, 0x01, 0x00, 0x00, 0x00, 0x11, 0x11, 0x45, 0xAA, 0x90, 0x00]\<rparr>)"
  by code_simp

text \<open>
  C3: for an enforce request (P1 = 0x03) whose key handle decrypts to at least 32 bytes,
  the response is on the request's channel and its payload is the user presence byte 01,
  the four counter bytes, the signature and \<open>SW_NO_ERROR\<close> (90 00). The signature is made
  by \<^verbatim>\<open>crypto_ec_sign_with_key\<close> with the key that \<^verbatim>\<open>crypto_ec_bytes_to_key\<close>
  builds from the decrypted key handle without its last 32 bytes, over the
  \<^verbatim>\<open>crypto_hash\<close> of application parameter, user presence, counter and challenge
  parameter of the request. The request is given by its bytes, and the key handle \<open>kh\<close>
  is \<^verbatim>\<open>crypto_aes_decrypt\<close> of the bytes \<open>khc\<close> that the request carries. The last
  bound says that the size of the key handle fits \<^verbatim>\<open>size_t\<close>, as the size of every
  buffer does.
\<close>

theorem enforce_response_layout:
  assumes "msg_data request = [cla, ins, 0x03, p2, lc1, lc2, lc3] @ cha @ app @ [khs] @ khc @ rest"
    and "length cha = 32" and "length app = 32" and "length khc = unat khs"
    and "kh = crypto_aes_decrypt cr khc"
    and "32 \<le> length kh" and "length kh < 2 ^ 64"
  shows "raw_authenticate_handler cr u request =
     Inr (Some \<lparr>msg_cid = msg_cid request, msg_cmd = CMD_MSG,
          msg_data = [0x01] @ [0x01, 0x00, 0x00, 0x00]
            @ crypto_ec_sign_with_key cr
                (crypto_ec_bytes_to_key cr (take (length kh - 32) kh))
                (crypto_hash cr (app @ [0x01] @ [0x01, 0x00, 0x00, 0x00] @ cha))
            @ [0x90, 0x00]\<rparr>)"
proof -
  have p: "frame_header_p1 request = U2F_AUTH_ENFORCE"
    by (simp add: frame_header_p1_layout [OF assms(1)] U2F_AUTH_ENFORCE_def)
  have k: "decrypted_key_handle cr u request = kh"
    by (simp add: decrypted_key_handle_layout [OF assms(1-4)] assms(5))
  have b: "length (decrypted_key_handle cr u request) < 2 ^ 64"
    using assms(7) by (simp add: k)
  show ?thesis
    using assms(6)
    by (simp add: raw_authenticate_handler_def p U2F_AUTH_ENFORCE_def U2F_AUTH_CHECK_def
          enforce_general [OF b] k read_params_layout [OF assms(1-3)] buffer_to_sign_def
          counter_buffer_1 private_key_bytes_def)
qed

text \<open>
  The layout on a request whose ciphered key handle of 64 bytes decrypts to the private
  key \<open>11\<close> (32 times) and the application parameter of the request.
\<close>

theorem enforce_response_layout_witness:
  "msg_data (masked_request 0x03 0xE1)
     = [0x00, 0x02, 0x03, 0x00, 0x00, 0x00, 0x81] @ replicate 32 0xAA @ replicate 32 0xBB
       @ [0x40] @ (replicate 32 0x4B @ replicate 32 0xE1) @ []
   \<and> length (replicate 32 (0xAA :: u8)) = 32 \<and> length (replicate 32 (0xBB :: u8)) = 32
   \<and> length (replicate 32 (0x4B :: u8) @ replicate 32 0xE1) = unat (0x40 :: u8)
   \<and> replicate 32 0x11 @ replicate 32 0xBB
       = crypto_aes_decrypt masked_crypto (replicate 32 0x4B @ replicate 32 0xE1)
   \<and> 32 \<le> length (replicate 32 (0x11 :: u8) @ replicate 32 0xBB)
   \<and> length (replicate 32 (0x11 :: u8) @ replicate 32 0xBB) < (2 :: nat) ^ 64
   \<and> raw_authenticate_handler masked_crypto zero_mem (masked_request 0x03 0xE1) =
       Inr (Some \<lparr>msg_cid = 0x01020304, msg_cmd = 0x83,
            msg_data = [0x01, 0x01, 0x00, 0x00, 0x00, 0x11, 0x11, 0x45, 0xAA, 0x90, 0x00]\<rparr>)"
proof -
  let ?khc = "replicate 32 (0x4B :: u8) @ replicate 32 0xE1"
  let ?kh = "replicate 32 (0x11 :: u8) @ replicate 32 0xBB"
  have h1: "msg_data (masked_request 0x03 0xE1)
     = [0x00, 0x02, 0x03, 0x00, 0x00, 0x00, 0x81] @ replicate 32 0xAA @ replicate 32 0xBB
       @ [0x40] @ ?khc @ []"
    by (simp add: masked_request_def)
  have h2: "length (replicate 32 (0xAA :: u8)) = 32" by simp
  have h3: "length (replicate 32 (0xBB :: u8)) = 32" by simp
  have h4: "length ?khc = unat (0x40 :: u8)" by simp
  have h5: "?kh = crypto_aes_decrypt masked_crypto ?khc" by (simp add: masked_crypto_def)
  have h6: "32 \<le> length ?kh" by simp
  have h7: "length ?kh < (2 :: nat) ^ 64" by simp
  have e: "\<lparr>msg_cid = msg_cid (masked_request 0x03 0xE1), msg_cmd = CMD_MSG,
          msg_data = [0x01] @ [0x01, 0x00, 0x00, 0x00]
            @ crypto_ec_sign_with_key masked_crypto
                (crypto_ec_bytes_to_key masked_crypto (take (length ?kh - 32) ?kh))
                (crypto_hash masked_crypto
                   (replicate 32 0xBB @ [0x01] @ [0x01, 0x00, 0x00, 0x00] @ replicate 32 0xAA))
            @ [0x90, 0x00]\<rparr>
        = \<lparr>msg_cid = 0x01020304, msg_cmd = 0x83,
           msg_data = [0x01, 0x01, 0x00, 0x00, 0x00, 0x11, 0x11, 0x45, 0xAA, 0x90, 0x00]\<rparr>"
    by code_simp
  from enforce_response_layout [OF h1 h2 h3 h4 h5 h6 h7, of zero_mem] have
    "raw_authenticate_handler masked_crypto zero_mem (masked_request 0x03 0xE1) =
       Inr (Some \<lparr>msg_cid = 0x01020304, msg_cmd = 0x83,
            msg_data = [0x01, 0x01, 0x00, 0x00, 0x00, 0x11, 0x11, 0x45, 0xAA, 0x90, 0x00]\<rparr>)"
    unfolding e .
  with h1 h2 h3 h4 h5 h6 h7 show ?thesis by (intro conjI)
qed

subsection \<open>The check handler\<close>




subsection \<open>The counter\<close>

text \<open>
  C2, as claimed: the counter field of an enforce response and the counter field of the
  signed buffer are big-endian. They are not: the handler passes the counter 1, both
  fields are the bytes 01 00 00 00, and read most significant byte first these are
  16777216.
\<close>

theorem counter_not_big_endian:
  "raw_authenticate_enforce toy_crypto zero_mem (auth_request 0x03 0xAA 0xBB) =
     Inr \<lparr>msg_cid = 0x01020304, msg_cmd = 0x83,
          msg_data = [0x01, 0x01, 0x00, 0x00, 0x00, 0x11, 0x11, 0x45, 0xAA, 0x90, 0x00]\<rparr>
   \<and> response_counter_field
        \<lparr>msg_cid = 0x01020304, msg_cmd = 0x83,
         msg_data = [0x01, 0x01, 0x00, 0x00, 0x00, 0x11, 0x11, 0x45, 0xAA, 0x90, 0x00]\<rparr>
       = [0x01, 0x00, 0x00, 0x00]
   \<and> signed_counter_field (buffer_to_sign (read_params zero_mem (auth_request 0x03 0xAA 0xBB)) 1 1)
       = [0x01, 0x00, 0x00, 0x00]
   \<and> be32_val [0x01, 0x00, 0x00, 0x00] \<noteq> unat (1 :: u32)"
proof -
  have "raw_authenticate_enforce toy_crypto zero_mem (auth_request 0x03 0xAA 0xBB) =
     Inr \<lparr>msg_cid = 0x01020304, msg_cmd = 0x83,
          msg_data = [0x01, 0x01, 0x00, 0x00, 0x00, 0x11, 0x11, 0x45, 0xAA, 0x90, 0x00]\<rparr>"
    by code_simp
  moreover have "response_counter_field
        \<lparr>msg_cid = 0x01020304, msg_cmd = 0x83,
         msg_data = [0x01, 0x01, 0x00, 0x00, 0x00, 0x11, 0x11, 0x45, 0xAA, 0x90, 0x00]\<rparr>
       = [0x01, 0x00, 0x00, 0x00]"
    by (simp add: response_counter_field_def)
  moreover have "signed_counter_field
        (buffer_to_sign (read_params zero_mem (auth_request 0x03 0xAA 0xBB)) 1 1)
       = [0x01, 0x00, 0x00, 0x00]"
    by (simp add: signed_counter counter_buffer_1)
  moreover have "be32_val [0x01, 0x00, 0x00, 0x00] \<noteq> unat (1 :: u32)"
    by (simp add: be32_val_def)
  ultimately show ?thesis by (intro conjI)
qed

text \<open>
  C2, amended: in every response of the enforce handler the counter field of the payload
  is 01 00 00 00, and the signature in it is over the hash of a buffer that holds the
  same four bytes after the 32 bytes of the application parameter and the user presence
  byte. Read least significant byte first (little-endian) these bytes are the counter 1
  that the handler passes. For any counter, \<^verbatim>\<open>authenticate_response_counter\<close> appends
  its four bytes least significant byte first, and
  \<^verbatim>\<open>authenticate_response_signature\<close> puts the same four bytes into the buffer it
  signs.
\<close>

theorem counter_little_endian:
  assumes "raw_authenticate_enforce cr u request = Inr r"
  shows "(\<exists>key. msg_data r = [0x01] @ [0x01, 0x00, 0x00, 0x00]
            @ crypto_ec_sign_with_key cr key
                (crypto_hash cr
                   (application_param (read_params u request) @ [0x01]
                      @ [0x01, 0x00, 0x00, 0x00] @ challenge_param (read_params u request)))
            @ [0x90, 0x00])
    \<and> length (application_param (read_params u request)) = 32
    \<and> (msg_data request = [cla, ins, p1, p2, lc1, lc2, lc3] @ cha @ app @ [khs] @ khc @ rest
          \<and> length cha = 32 \<and> length app = 32
        \<longrightarrow> application_param (read_params u request) = app
            \<and> challenge_param (read_params u request) = cha)
    \<and> response_counter_field r = [0x01, 0x00, 0x00, 0x00]
    \<and> signed_counter_field
          (application_param (read_params u request) @ [0x01]
             @ [0x01, 0x00, 0x00, 0x00] @ challenge_param (read_params u request))
        = [0x01, 0x00, 0x00, 0x00]
    \<and> le32_val [0x01, 0x00, 0x00, 0x00] = unat (1 :: u32)
    \<and> msg_data (authenticate_response_counter response counter)
        = msg_data response @ counter_buffer counter
    \<and> signed_counter_field (buffer_to_sign (read_params u request) presence counter)
        = counter_buffer counter
    \<and> length (counter_buffer counter) = 4
    \<and> le32_val (counter_buffer counter) = unat counter"
proof -
  have 1: "\<exists>key. msg_data r = [0x01] @ [0x01, 0x00, 0x00, 0x00]
            @ crypto_ec_sign_with_key cr key
                (crypto_hash cr
                   (application_param (read_params u request) @ [0x01]
                      @ [0x01, 0x00, 0x00, 0x00] @ challenge_param (read_params u request)))
            @ [0x90, 0x00]"
    using assms
    by (auto simp: raw_authenticate_enforce_def Let_def sw_bytes message_new_blank_def
          authenticate_response_user_pre_def authenticate_response_counter_def
          authenticate_response_signature_def message_add_data_def buffer_to_sign_def
          counter_buffer_1 split: sum.splits)
  have 2: "length (application_param (read_params u request)) = 32"
    by (rule length_application_param)
  have 3: "msg_data request = [cla, ins, p1, p2, lc1, lc2, lc3] @ cha @ app @ [khs] @ khc @ rest
          \<and> length cha = 32 \<and> length app = 32
        \<longrightarrow> application_param (read_params u request) = app
            \<and> challenge_param (read_params u request) = cha"
    by (auto simp: read_params_layout)
  have 4: "response_counter_field r = [0x01, 0x00, 0x00, 0x00]"
    using enforce_Inr [OF assms] by (auto simp: response_counter_field_def counter_buffer_1)
  have 5: "signed_counter_field
          (application_param (read_params u request) @ [0x01]
             @ [0x01, 0x00, 0x00, 0x00] @ challenge_param (read_params u request))
        = [0x01, 0x00, 0x00, 0x00]"
    by (simp add: signed_counter_field_def 2 U2F_APP_PARAM_SIZE_def)
  have 6: "le32_val [0x01, 0x00, 0x00, 0x00] = unat (1 :: u32)"
    by (simp add: le32_val_def)
  have 7: "msg_data (authenticate_response_counter response counter)
        = msg_data response @ counter_buffer counter"
    by (simp add: authenticate_response_counter_def message_add_data_def)
  have 8: "length (counter_buffer counter) = 4" by (simp add: counter_buffer_def)
  from 1 2 3 4 5 6 7 signed_counter 8 le32_val_counter_buffer show ?thesis
    by (intro conjI)
qed

text \<open>
  A response of the enforce handler with its counter field and the fields of the request
  that are signed with it, and the encoding of the counter \<open>01020304\<close>.
\<close>

theorem counter_little_endian_witness:
  "raw_authenticate_enforce masked_crypto zero_mem (masked_request 0x03 0xE1) =
     Inr \<lparr>msg_cid = 0x01020304, msg_cmd = 0x83,
          msg_data = [0x01, 0x01, 0x00, 0x00, 0x00, 0x11, 0x11, 0x45, 0xAA, 0x90, 0x00]\<rparr>
   \<and> msg_data (masked_request 0x03 0xE1)
     = [0x00, 0x02, 0x03, 0x00, 0x00, 0x00, 0x81] @ replicate 32 0xAA @ replicate 32 0xBB
       @ [0x40] @ (replicate 32 0x4B @ replicate 32 0xE1) @ []
   \<and> length (replicate 32 (0xAA :: u8)) = 32 \<and> length (replicate 32 (0xBB :: u8)) = 32
   \<and> application_param (read_params zero_mem (masked_request 0x03 0xE1)) = replicate 32 0xBB
   \<and> challenge_param (read_params zero_mem (masked_request 0x03 0xE1)) = replicate 32 0xAA
   \<and> response_counter_field
        \<lparr>msg_cid = 0x01020304, msg_cmd = 0x83,
         msg_data = [0x01, 0x01, 0x00, 0x00, 0x00, 0x11, 0x11, 0x45, 0xAA, 0x90, 0x00]\<rparr>
       = [0x01, 0x00, 0x00, 0x00]
   \<and> signed_counter_field
        (replicate 32 0xBB @ [0x01] @ [0x01, 0x00, 0x00, 0x00] @ replicate 32 0xAA)
       = [0x01, 0x00, 0x00, 0x00]
   \<and> counter_buffer 0x01020304 = [0x04, 0x03, 0x02, 0x01]
   \<and> le32_val (counter_buffer 0x01020304) = 16909060"
proof -
  let ?req = "masked_request 0x03 0xE1"
  let ?r = "\<lparr>msg_cid = 0x01020304, msg_cmd = 0x83,
          msg_data = [0x01, 0x01, 0x00, 0x00, 0x00, 0x11, 0x11, 0x45, 0xAA, 0x90, 0x00]\<rparr>"
  have h: "raw_authenticate_enforce masked_crypto zero_mem ?req = Inr ?r"
    by code_simp
  have l: "msg_data ?req
     = [0x00, 0x02, 0x03, 0x00, 0x00, 0x00, 0x81] @ replicate 32 0xAA @ replicate 32 0xBB
       @ [0x40] @ (replicate 32 0x4B @ replicate 32 0xE1) @ []"
    by (simp add: masked_request_def)
  have la: "length (replicate 32 (0xAA :: u8)) = 32"
    and lb: "length (replicate 32 (0xBB :: u8)) = 32"
    by simp_all
  have b: "counter_buffer 0x01020304 = [0x04, 0x03, 0x02, 0x01]"
    by (simp add: counter_buffer_def)
  have v: "unat (0x01020304 :: u32) = 16909060" by simp
  note t = counter_little_endian [OF h, where cla = "0x00" and ins = "0x02" and ?p1.0 = "0x03"
      and ?p2.0 = "0x00" and ?lc1.0 = "0x00" and ?lc2.0 = "0x00" and ?lc3.0 = "0x81"
      and cha = "replicate 32 0xAA" and app = "replicate 32 0xBB" and khs = "0x40"
      and khc = "replicate 32 0x4B @ replicate 32 0xE1" and rest = "[]"
      and response = "message_new_blank 0 CMD_MSG" and counter = "0x01020304"
      and presence = 1]
  from t l la lb
  have 1: "application_param (read_params zero_mem ?req) = replicate 32 0xBB"
    and 2: "challenge_param (read_params zero_mem ?req) = replicate 32 0xAA"
    by blast+
  from t have 3: "response_counter_field ?r = [0x01, 0x00, 0x00, 0x00]" by blast
  from t have 4: "signed_counter_field
        (application_param (read_params zero_mem ?req) @ [0x01] @ [0x01, 0x00, 0x00, 0x00]
           @ challenge_param (read_params zero_mem ?req))
       = [0x01, 0x00, 0x00, 0x00]"
    by blast
  from t have 5: "le32_val (counter_buffer 0x01020304) = unat (0x01020304 :: u32)" by blast
  from h l la lb 1 2 3 4 [unfolded 1 2] b 5 [unfolded v] show ?thesis by (intro conjI)
qed

text \<open>
  C6, as claimed: the counter of an enforce response is strictly greater than the counter
  of the previous one. The handlers keep no state between requests, so two requests in
  a row are two calls; the responses to the two requests below carry the same counter
  field, whichever way it is read.
\<close>

theorem counter_not_increasing:
  "raw_authenticate_enforce toy_crypto zero_mem (auth_request 0x03 0xAA 0xBB) =
     Inr \<lparr>msg_cid = 0x01020304, msg_cmd = 0x83,
          msg_data = [0x01, 0x01, 0x00, 0x00, 0x00, 0x11, 0x11, 0x45, 0xAA, 0x90, 0x00]\<rparr>
   \<and> raw_authenticate_enforce toy_crypto zero_mem (auth_request 0x03 0xAB 0xBB) =
     Inr \<lparr>msg_cid = 0x01020304, msg_cmd = 0x83,
          msg_data = [0x01, 0x01, 0x00, 0x00, 0x00, 0x11, 0x11, 0x45, 0xAB, 0x90, 0x00]\<rparr>
   \<and> \<not> be32_val (response_counter_field
          \<lparr>msg_cid = 0x01020304, msg_cmd = 0x83,
           msg_data = [0x01, 0x01, 0x00, 0x00, 0x00, 0x11, 0x11, 0x45, 0xAA, 0x90, 0x00]\<rparr>)
       < be32_val (response_counter_field
          \<lparr>msg_cid = 0x01020304, msg_cmd = 0x83,
           msg_data = [0x01, 0x01, 0x00, 0x00, 0x00, 0x11, 0x11, 0x45, 0xAB, 0x90, 0x00]\<rparr>)
   \<and> \<not> le32_val (response_counter_field
          \<lparr>msg_cid = 0x01020304, msg_cmd = 0x83,
           msg_data = [0x01, 0x01, 0x00, 0x00, 0x00, 0x11, 0x11, 0x45, 0xAA, 0x90, 0x00]\<rparr>)
       < le32_val (response_counter_field
          \<lparr>msg_cid = 0x01020304, msg_cmd = 0x83,
           msg_data = [0x01, 0x01, 0x00, 0x00, 0x00, 0x11, 0x11, 0x45, 0xAB, 0x90, 0x00]\<rparr>)"
proof -
  have "raw_authenticate_enforce toy_crypto zero_mem (auth_request 0x03 0xAA 0xBB) =
     Inr \<lparr>msg_cid = 0x01020304, msg_cmd = 0x83,
          msg_data = [0x01, 0x01, 0x00, 0x00, 0x00, 0x11, 0x11, 0x45, 0xAA, 0x90, 0x00]\<rparr>"
    by code_simp
  moreover have "raw_authenticate_enforce toy_crypto zero_mem (auth_request 0x03 0xAB 0xBB) =
     Inr \<lparr>msg_cid = 0x01020304, msg_cmd = 0x83,
          msg_data = [0x01, 0x01, 0x00, 0x00, 0x00, 0x11, 0x11, 0x45, 0xAB, 0x90, 0x00]\<rparr>"
    by code_simp
  ultimately show ?thesis
    by (simp add: response_counter_field_def)
qed

text \<open>
  C6, amended: every response of the enforce handler carries the counter field
  01 00 00 00, the constant 1 that the handler passes, so the counter of a response
  equals the counter of any other response.
\<close>

theorem enforce_counter_constant:
  assumes "raw_authenticate_enforce cr u request = Inr r"
    and "raw_authenticate_enforce cr' u' request' = Inr r'"
  shows "response_counter_field r = [0x01, 0x00, 0x00, 0x00]
         \<and> response_counter_field r' = response_counter_field r"
  using enforce_Inr [OF assms(1)] enforce_Inr [OF assms(2)]
  by (auto simp: response_counter_field_def counter_buffer_1)

text \<open>Two requests with different challenges.\<close>

theorem enforce_counter_constant_witness:
  "raw_authenticate_enforce toy_crypto zero_mem (auth_request 0x03 0xAA 0xBB) =
     Inr \<lparr>msg_cid = 0x01020304, msg_cmd = 0x83,
          msg_data = [0x01, 0x01, 0x00, 0x00, 0x00, 0x11, 0x11, 0x45, 0xAA, 0x90, 0x00]\<rparr>
   \<and> raw_authenticate_enforce toy_crypto zero_mem (auth_request 0x03 0xAB 0xBB) =
     Inr \<lparr>msg_cid = 0x01020304, msg_cmd = 0x83,
          msg_data = [0x01, 0x01, 0x00, 0x00, 0x00, 0x11, 0x11, 0x45, 0xAB, 0x90, 0x00]\<rparr>
   \<and> response_counter_field
          \<lparr>msg_cid = 0x01020304, msg_cmd = 0x83,
           msg_data = [0x01, 0x01, 0x00, 0x00, 0x00, 0x11, 0x11, 0x45, 0xAA, 0x90, 0x00]\<rparr>
       = [0x01, 0x00, 0x00, 0x00]
   \<and> response_counter_field
          \<lparr>msg_cid = 0x01020304, msg_cmd = 0x83,
           msg_data = [0x01, 0x01, 0x00, 0x00, 0x00, 0x11, 0x11, 0x45, 0xAB, 0x90, 0x00]\<rparr>
       = response_counter_field
          \<lparr>msg_cid = 0x01020304, msg_cmd = 0x83,
           msg_data = [0x01, 0x01, 0x00, 0x00, 0x00, 0x11, 0x11, 0x45, 0xAA, 0x90, 0x00]\<rparr>"
proof -
  have 1: "raw_authenticate_enforce toy_crypto zero_mem (auth_request 0x03 0xAA 0xBB) =
     Inr \<lparr>msg_cid = 0x01020304, msg_cmd = 0x83,
          msg_data = [0x01, 0x01, 0x00, 0x00, 0x00, 0x11, 0x11, 0x45, 0xAA, 0x90, 0x00]\<rparr>"
    by code_simp
  have 2: "raw_authenticate_enforce toy_crypto zero_mem (auth_request 0x03 0xAB 0xBB) =
     Inr \<lparr>msg_cid = 0x01020304, msg_cmd = 0x83,
          msg_data = [0x01, 0x01, 0x00, 0x00, 0x00, 0x11, 0x11, 0x45, 0xAB, 0x90, 0x00]\<rparr>"
    by code_simp
  from 1 2 enforce_counter_constant [OF 1 2] show ?thesis by (intro conjI) blast+
qed

subsection \<open>Dispatch on P1\<close>

text \<open>
  C5, as claimed: a request with P1 = 0x08 (don't-enforce) gets the response that the
  same request gets with P1 = 0x03 (enforce). It does not:
  \<^verbatim>\<open>raw_authenticate_no_enforce\<close> returns \<^verbatim>\<open>NULL\<close>, where the enforce handler
  returns a signed response.
\<close>

theorem no_enforce_differs_from_enforce:
  "raw_authenticate_handler toy_crypto zero_mem (auth_request 0x08 0xAA 0xBB) = Inr None
   \<and> raw_authenticate_handler toy_crypto zero_mem (auth_request 0x03 0xAA 0xBB)
     = Inr (Some \<lparr>msg_cid = 0x01020304, msg_cmd = 0x83,
                  msg_data = [0x01, 0x01, 0x00, 0x00, 0x00, 0x11, 0x11, 0x45, 0xAA, 0x90, 0x00]\<rparr>)
   \<and> raw_authenticate_handler toy_crypto zero_mem (auth_request 0x08 0xAA 0xBB)
     \<noteq> raw_authenticate_handler toy_crypto zero_mem (auth_request 0x03 0xAA 0xBB)"
proof -
  have 8: "raw_authenticate_handler toy_crypto zero_mem (auth_request 0x08 0xAA 0xBB) = Inr None"
    by code_simp
  have 3: "raw_authenticate_handler toy_crypto zero_mem (auth_request 0x03 0xAA 0xBB)
     = Inr (Some \<lparr>msg_cid = 0x01020304, msg_cmd = 0x83,
                  msg_data = [0x01, 0x01, 0x00, 0x00, 0x00, 0x11, 0x11, 0x45, 0xAA, 0x90, 0x00]\<rparr>)"
    by code_simp
  have "raw_authenticate_handler toy_crypto zero_mem (auth_request 0x08 0xAA 0xBB)
     \<noteq> raw_authenticate_handler toy_crypto zero_mem (auth_request 0x03 0xAA 0xBB)"
    unfolding 8 3 by simp
  with 8 3 show ?thesis by (intro conjI)
qed

text \<open>
  C5, amended: for every request with P1 = 0x08 the handler returns no response message
  (\<^verbatim>\<open>NULL\<close>).
\<close>

theorem no_enforce_returns_null:
  assumes "frame_header_p1 request = U2F_AUTH_NO_ENFORCE"
  shows "raw_authenticate_handler cr u request = Inr None"
  using assms
  by (simp add: raw_authenticate_handler_def raw_authenticate_no_enforce_def
        U2F_AUTH_NO_ENFORCE_def U2F_AUTH_CHECK_def U2F_AUTH_ENFORCE_def)

text \<open>A request with P1 = 0x08.\<close>

theorem no_enforce_returns_null_witness:
  "frame_header_p1 (auth_request 0x08 0xAA 0xBB) = U2F_AUTH_NO_ENFORCE
   \<and> raw_authenticate_handler toy_crypto zero_mem (auth_request 0x08 0xAA 0xBB) = Inr None"
proof -
  have h: "frame_header_p1 (auth_request 0x08 0xAA 0xBB) = U2F_AUTH_NO_ENFORCE"
    by (simp add: frame_header_p1_def auth_request_def U2F_AUTH_NO_ENFORCE_def)
  from h no_enforce_returns_null [OF h] show ?thesis by (intro conjI)
qed

text \<open>
  C8: for every request whose P1 is none of 0x03 (enforce), 0x07 (check-only) and 0x08
  (don't-enforce), \<^verbatim>\<open>raw_authenticate_handler\<close> returns no response message
  (\<^verbatim>\<open>NULL\<close>): neither a status word nor an error.
\<close>

theorem unknown_p1_returns_null:
  assumes "frame_header_p1 request \<notin> {U2F_AUTH_ENFORCE, U2F_AUTH_CHECK, U2F_AUTH_NO_ENFORCE}"
  shows "raw_authenticate_handler cr u request = Inr None"
  using assms by (simp add: raw_authenticate_handler_def)

text \<open>A request with P1 = 0x00.\<close>

theorem unknown_p1_returns_null_witness:
  "frame_header_p1 (auth_request 0x00 0xAA 0xBB) \<notin> {0x03, 0x07, 0x08}
   \<and> raw_authenticate_handler toy_crypto zero_mem (auth_request 0x00 0xAA 0xBB) = Inr None"
proof -
  have p: "frame_header_p1 (auth_request 0x00 0xAA 0xBB) = 0"
    by (simp add: frame_header_p1_def auth_request_def)
  have h: "frame_header_p1 (auth_request 0x00 0xAA 0xBB)
             \<notin> {U2F_AUTH_ENFORCE, U2F_AUTH_CHECK, U2F_AUTH_NO_ENFORCE}"
    by (simp add: p U2F_AUTH_NO_ENFORCE_def U2F_AUTH_CHECK_def U2F_AUTH_ENFORCE_def)
  have h': "frame_header_p1 (auth_request 0x00 0xAA 0xBB) \<notin> {0x03, 0x07, 0x08}"
    by (simp add: p)
  from h' unknown_p1_returns_null [OF h] show ?thesis by (intro conjI)
qed

subsection \<open>Reads of the plain key handle\<close>

text \<open>
  C9: the check and the enforce handler subtract \<open>U2F_APP_PARAM_SIZE\<close> from the size of
  the plain key handle without a guard. When the key handle has at least 32 bytes the
  subtraction does not wrap around, the comparison reads the last 32 bytes of the key
  handle and the key is built from the bytes before them, all inside the buffer. When it
  is shorter the subtraction wraps around and both reads are outside the buffer, in the
  helpers and in the two handlers.
\<close>

theorem key_handle_reads_in_bounds:
  assumes "kh = decrypted_key_handle cr u request" and "length kh < 2 ^ 64"
  shows "unat (privkey_size_of (length kh))
           = (if 32 \<le> length kh then length kh - 32 else length kh + 2 ^ 64 - 32)
         \<and> buffer_read kh (unat (privkey_size_of (length kh))) U2F_APP_PARAM_SIZE
           = (if 32 \<le> length kh then Inr (bound_application_param kh) else Inl OutOfBounds)
         \<and> authenticate_get_pubkey_from_key_handle cr kh
           = (if 32 \<le> length kh then Inr (crypto_ec_bytes_to_key cr (private_key_bytes kh))
              else Inl OutOfBounds)
         \<and> (raw_authenticate_check cr u request = Inl OutOfBounds) = (length kh < 32)
         \<and> (raw_authenticate_enforce cr u request = Inl OutOfBounds) = (length kh < 32)"
proof -
  have b: "length (decrypted_key_handle cr u request) < 2 ^ 64" using assms by simp
  have "(raw_authenticate_check cr u request = Inl OutOfBounds) = (length kh < 32)"
    by (simp add: check_general [OF b] assms(1))
  moreover have "(raw_authenticate_enforce cr u request = Inl OutOfBounds) = (length kh < 32)"
    by (simp add: enforce_general [OF b] assms(1))
  moreover note unat_privkey_size_of [OF assms(2)] buffer_read_app [OF assms(2)]
    get_pubkey [OF assms(2), of cr]
  ultimately show ?thesis by (intro conjI)
qed

text \<open>A key handle of 64 bytes and one of 16 bytes.\<close>

theorem key_handle_reads_in_bounds_witness:
  "decrypted_key_handle toy_crypto zero_mem (auth_request 0x07 0xAA 0xBB)
     = replicate 32 0x11 @ replicate 32 0xBB
   \<and> length (replicate 32 (0x11 :: u8) @ replicate 32 0xBB) < (2 :: nat) ^ 64
   \<and> unat (privkey_size_of 64) = 32
   \<and> buffer_read (replicate 32 0x11 @ replicate 32 0xBB) 32 U2F_APP_PARAM_SIZE
       = Inr (replicate 32 0xBB)
   \<and> authenticate_get_pubkey_from_key_handle toy_crypto (replicate 32 0x11 @ replicate 32 0xBB)
       = Inr (replicate 32 0x11)
   \<and> raw_authenticate_check toy_crypto zero_mem (auth_request 0x07 0xAA 0xBB) \<noteq> Inl OutOfBounds
   \<and> raw_authenticate_enforce toy_crypto zero_mem (auth_request 0x07 0xAA 0xBB) \<noteq> Inl OutOfBounds
   \<and> decrypted_key_handle toy_crypto zero_mem (short_request 0x07) = replicate 16 0x11
   \<and> length (replicate 16 (0x11 :: u8)) < (2 :: nat) ^ 64
   \<and> unat (privkey_size_of 16) = 18446744073709551600
   \<and> buffer_read (replicate 16 0x11) 18446744073709551600 U2F_APP_PARAM_SIZE = Inl OutOfBounds
   \<and> authenticate_get_pubkey_from_key_handle toy_crypto (replicate 16 0x11) = Inl OutOfBounds
   \<and> raw_authenticate_check toy_crypto zero_mem (short_request 0x07) = Inl OutOfBounds
   \<and> raw_authenticate_enforce toy_crypto zero_mem (short_request 0x07) = Inl OutOfBounds"
proof -
  let ?a = "auth_request 0x07 0xAA 0xBB" and ?b = "short_request 0x07"
  let ?ka = "replicate 32 (0x11 :: u8) @ replicate 32 0xBB" and ?kb = "replicate 16 (0x11 :: u8)"
  have a1: "?ka = decrypted_key_handle toy_crypto zero_mem ?a" by code_simp
  have a2: "length ?ka < (2 :: nat) ^ 64" by simp
  have b1: "?kb = decrypted_key_handle toy_crypto zero_mem ?b" by code_simp
  have b2: "length ?kb < (2 :: nat) ^ 64" by simp
  have pa: "private_key_bytes ?ka = replicate 32 0x11"
    and ba: "bound_application_param ?ka = replicate 32 0xBB"
    by (simp_all add: private_key_bytes_def bound_application_param_def)
  have ta: "crypto_ec_bytes_to_key toy_crypto (replicate 32 0x11) = replicate 32 0x11"
    by (simp add: toy_crypto_def)
  note A = key_handle_reads_in_bounds [OF a1 a2]
  note B = key_handle_reads_in_bounds [OF b1 b2]
  from A B a1 [symmetric] b1 [symmetric] a2 b2 show ?thesis
    by (auto simp: pa ba ta)
qed

subsection \<open>Channel and command of the response\<close>

text \<open>
  C10: every message that the check handler or the enforce handler returns is on the
  channel of the request and has the command \<open>CMD_MSG\<close>.
\<close>

theorem response_channel_and_command:
  "(raw_authenticate_check cr u request = Inr r
      \<longrightarrow> msg_cid r = msg_cid request \<and> msg_cmd r = CMD_MSG)
   \<and> (raw_authenticate_enforce cr u request = Inr r'
      \<longrightarrow> msg_cid r' = msg_cid request \<and> msg_cmd r' = CMD_MSG)"
proof (intro conjI impI)
  assume "raw_authenticate_check cr u request = Inr r"
  from check_Inr [OF this] show "msg_cid r = msg_cid request" and "msg_cmd r = CMD_MSG"
    by simp_all
next
  assume "raw_authenticate_enforce cr u request = Inr r'"
  from enforce_Inr [OF this] show "msg_cid r' = msg_cid request" and "msg_cmd r' = CMD_MSG"
    by auto
qed

text \<open>The responses of both handlers to one request.\<close>

theorem response_channel_and_command_witness:
  "raw_authenticate_check toy_crypto zero_mem (auth_request 0x07 0xAA 0xBB) =
       Inr \<lparr>msg_cid = 0x01020304, msg_cmd = 0x83, msg_data = [0x69, 0x85]\<rparr>
   \<and> raw_authenticate_enforce toy_crypto zero_mem (auth_request 0x07 0xAA 0xBB) =
       Inr \<lparr>msg_cid = 0x01020304, msg_cmd = 0x83,
            msg_data = [0x01, 0x01, 0x00, 0x00, 0x00, 0x11, 0x11, 0x45, 0xAA, 0x90, 0x00]\<rparr>
   \<and> msg_cid \<lparr>msg_cid = 0x01020304, msg_cmd = 0x83, msg_data = [0x69, 0x85]\<rparr>
       = msg_cid (auth_request 0x07 0xAA 0xBB)
   \<and> msg_cmd \<lparr>msg_cid = 0x01020304, msg_cmd = 0x83, msg_data = [0x69, 0x85]\<rparr> = CMD_MSG
   \<and> msg_cid \<lparr>msg_cid = 0x01020304, msg_cmd = 0x83,
            msg_data = [0x01, 0x01, 0x00, 0x00, 0x00, 0x11, 0x11, 0x45, 0xAA, 0x90, 0x00]\<rparr>
       = msg_cid (auth_request 0x07 0xAA 0xBB)
   \<and> msg_cmd \<lparr>msg_cid = 0x01020304, msg_cmd = 0x83,
            msg_data = [0x01, 0x01, 0x00, 0x00, 0x00, 0x11, 0x11, 0x45, 0xAA, 0x90, 0x00]\<rparr>
       = CMD_MSG"
proof -
  have 1: "raw_authenticate_check toy_crypto zero_mem (auth_request 0x07 0xAA 0xBB) =
       Inr \<lparr>msg_cid = 0x01020304, msg_cmd = 0x83, msg_data = [0x69, 0x85]\<rparr>"
    by code_simp
  have 2: "raw_authenticate_enforce toy_crypto zero_mem (auth_request 0x07 0xAA 0xBB) =
       Inr \<lparr>msg_cid = 0x01020304, msg_cmd = 0x83,
            msg_data = [0x01, 0x01, 0x00, 0x00, 0x00, 0x11, 0x11, 0x45, 0xAA, 0x90, 0x00]\<rparr>"
    by code_simp
  from 1 2 response_channel_and_command [of toy_crypto zero_mem "auth_request 0x07 0xAA 0xBB"
      "\<lparr>msg_cid = 0x01020304, msg_cmd = 0x83, msg_data = [0x69, 0x85]\<rparr>"
      "\<lparr>msg_cid = 0x01020304, msg_cmd = 0x83,
            msg_data = [0x01, 0x01, 0x00, 0x00, 0x00, 0x11, 0x11, 0x45, 0xAA, 0x90, 0x00]\<rparr>"]
  show ?thesis by (intro conjI) blast+
qed

subsection \<open>Version bytes of the INIT response\<close>

text \<open>
  C7: in an INIT response, after the nonce of 8 bytes and the channel id of 4 bytes, the
  payload ends with the five bytes 02 00 01 00 00: protocol version 2, device version
  0.1.0 and no capability flag.
\<close>

theorem init_response_trailer:
  assumes "length nonce = U2FHID_INIT_BCNT" and "length new_cid = 4"
  shows "length (u2fhid_init_response_data nonce new_cid) = 17
         \<and> take 8 (u2fhid_init_response_data nonce new_cid) = nonce
         \<and> take 4 (drop 8 (u2fhid_init_response_data nonce new_cid)) = new_cid
         \<and> drop 12 (u2fhid_init_response_data nonce new_cid) = [0x02, 0x00, 0x01, 0x00, 0x00]"
  using assms
  by (simp add: u2fhid_init_response_data_def U2FHID_INIT_BCNT_def PROTOCOL_VERSION_def
        MAJ_DEV_VERSION_def MIN_DEV_VERSION_def BUILD_DEV_VERSION_def CAP_FLAGS_def)

text \<open>The response of the first scenario of section 8, with a channel id \<open>0A0B0C0D\<close>.\<close>

theorem init_response_trailer_witness:
  "length [0x00, 0x01, 0x02, 0x03, 0x04, 0x05, 0x06, 0x07 :: u8] = U2FHID_INIT_BCNT
   \<and> length [0x0A, 0x0B, 0x0C, 0x0D :: u8] = 4
   \<and> u2fhid_init_response_data [0x00, 0x01, 0x02, 0x03, 0x04, 0x05, 0x06, 0x07]
        [0x0A, 0x0B, 0x0C, 0x0D]
      = [0x00, 0x01, 0x02, 0x03, 0x04, 0x05, 0x06, 0x07, 0x0A, 0x0B, 0x0C, 0x0D,
         0x02, 0x00, 0x01, 0x00, 0x00]
   \<and> drop 12 (u2fhid_init_response_data [0x00, 0x01, 0x02, 0x03, 0x04, 0x05, 0x06, 0x07]
        [0x0A, 0x0B, 0x0C, 0x0D]) = [0x02, 0x00, 0x01, 0x00, 0x00]"
proof -
  have h1: "length [0x00, 0x01, 0x02, 0x03, 0x04, 0x05, 0x06, 0x07 :: u8] = U2FHID_INIT_BCNT"
    by (simp add: U2FHID_INIT_BCNT_def)
  have h2: "length [0x0A, 0x0B, 0x0C, 0x0D :: u8] = 4" by simp
  have e: "u2fhid_init_response_data [0x00, 0x01, 0x02, 0x03, 0x04, 0x05, 0x06, 0x07]
        [0x0A, 0x0B, 0x0C, 0x0D]
      = [0x00, 0x01, 0x02, 0x03, 0x04, 0x05, 0x06, 0x07, 0x0A, 0x0B, 0x0C, 0x0D,
         0x02, 0x00, 0x01, 0x00, 0x00]"
    by (simp add: u2fhid_init_response_data_def PROTOCOL_VERSION_def
        MAJ_DEV_VERSION_def MIN_DEV_VERSION_def BUILD_DEV_VERSION_def CAP_FLAGS_def)
  from h1 h2 e init_response_trailer [OF h1 h2] show ?thesis by (intro conjI) blast+
qed

end
